theory Spec2Isabelle
  imports Main "HOL-Library.Sublist"
begin

section \<open>Strings, exceptions and the environment\<close>

text \<open>
  Python strings are modelled as \<^typ>\<open>string\<close>, one \<^typ>\<open>char\<close> per code point below 256.
  \<open>str.strip()\<close> removes leading and trailing white space; the code points below 256
  that Python counts as white space are 9-13, 28-32, 133 and 160.
\<close>

definition isspace :: "char \<Rightarrow> bool" where
  "isspace c =
     (let n = (of_char c :: nat)
      in (9 \<le> n \<and> n \<le> 13) \<or> (28 \<le> n \<and> n \<le> 32) \<or> n = 133 \<or> n = 160)"

definition strip :: "string \<Rightarrow> string" where
  "strip s = rev (dropWhile isspace (rev (dropWhile isspace s)))"

text \<open>Decimal rendering of a status code, as an f-string prints an integer.\<close>

fun str_nat :: "nat \<Rightarrow> string" where
  "str_nat n =
     (if n < 10 then [''0123456789'' ! n]
      else str_nat (n div 10) @ [''0123456789'' ! (n mod 10)])"

text \<open>
  The exceptions that reach the handlers. \<open>HTTPException\<close> is FastAPI's (a subclass of
  \<open>Exception\<close>, carrying a status code and a detail), \<open>ValueError\<close> is raised by the
  chatbot's constructor, \<open>OperationalError\<close> is sqlite3's (a missing table), and
  \<open>LibraryError\<close> stands for any other \<open>Exception\<close> raised inside the LangChain and Gemini
  libraries, carrying its \<open>str()\<close>.
\<close>

datatype exn =
    HTTPException nat string
  | ValueError string
  | OperationalError string
  | LibraryError string

text \<open>
  \<open>str(e)\<close>. For an \<open>HTTPException\<close> this is Starlette's \<open>__str__\<close>, status code and
  detail; for the others it is the message.
\<close>

fun str_exn :: "exn \<Rightarrow> string" where
  "str_exn (HTTPException code detail) = str_nat code @ '': '' @ detail"
| "str_exn (ValueError msg) = msg"
| "str_exn (OperationalError msg) = msg"
| "str_exn (LibraryError msg) = msg"

text \<open>
  The status code FastAPI answers with: the code of a raised \<open>HTTPException\<close>, 500 for any
  other exception that escapes a handler, 200 for a returned body.
\<close>

fun status_code :: "exn + 'a \<Rightarrow> nat" where
  "status_code (Inl (HTTPException code detail)) = code"
| "status_code (Inl e) = 500"
| "status_code (Inr body) = 200"

datatype message = HumanMessage string | AIMessage string

text \<open>
  What a request reads from outside the program:
  \<^item> \<open>GOOGLE_API_KEY\<close>: the environment variable read by \<open>os.getenv\<close>;
  \<^item> \<open>clock\<close>: SQLite's \<open>CURRENT_TIMESTAMP\<close>, in whole seconds (the stored text
    \<open>YYYY-MM-DD HH:MM:SS\<close> has one-second resolution and sorts as the seconds do);
  \<^item> \<open>isoformat\<close>: \<open>datetime.now().isoformat()\<close>;
  \<^item> \<open>new_llm\<close>: the exception, if any, raised by the \<open>ChatGoogleGenerativeAI\<close>
    constructor for an API key;
  \<^item> \<open>from_messages\<close>: the exception, if any, raised by
    \<open>ChatPromptTemplate.from_messages\<close> for a system prompt;
  \<^item> \<open>chain_invoke\<close>: the outcome of \<open>self.chain.invoke({"question": question})\<close> for the
    system prompt of the chain, the messages in memory and the question: the text the model
    returns, or the exception raised.
\<close>

record env =
  GOOGLE_API_KEY :: "string option"
  clock :: nat
  isoformat :: string
  new_llm :: "string \<Rightarrow> exn option"
  from_messages :: "string \<Rightarrow> exn option"
  chain_invoke :: "string \<Rightarrow> message list \<Rightarrow> string \<Rightarrow> exn + string"

section \<open>Persistence layer (db.py)\<close>

record log_row =
  log_id :: int
  log_question :: string
  log_answer :: string
  log_timestamp :: nat
  log_session_id :: "string option"

record training_row =
  tr_id :: int
  tr_question :: string
  tr_answer :: string
  tr_created_at :: nat

text \<open>
  A table of the database file: the column declarations it was created with, its rows in
  rowid order, and the largest rowid ever assigned (the \<open>sqlite_sequence\<close> entry that
  \<open>AUTOINCREMENT\<close> keeps). A table that was never created is \<open>None\<close>.
\<close>

record 'r table =
  columns :: "string list"
  rows :: "'r list"
  seq :: int

record database =
  conversation_logs :: "log_row table option"
  training_data :: "training_row table option"

definition conversation_logs_columns :: "string list" where
  "conversation_logs_columns =
     [''id INTEGER PRIMARY KEY AUTOINCREMENT'',
      ''question TEXT NOT NULL'',
      ''answer TEXT NOT NULL'',
      ''timestamp DATETIME DEFAULT CURRENT_TIMESTAMP'',
      ''session_id TEXT DEFAULT NULL'']"

definition training_data_columns :: "string list" where
  "training_data_columns =
     [''id INTEGER PRIMARY KEY AUTOINCREMENT'',
      ''question TEXT NOT NULL'',
      ''answer TEXT NOT NULL'',
      ''created_at DATETIME DEFAULT CURRENT_TIMESTAMP'']"

text \<open>
  \<open>CREATE TABLE [IF NOT EXISTS] name (cols)\<close>: creates an empty table when there is none;
  when there is one, \<open>IF NOT EXISTS\<close> makes the statement do nothing, and without it the
  statement fails.
\<close>

definition create_table ::
  "bool \<Rightarrow> string \<Rightarrow> string list \<Rightarrow> 'r table option \<Rightarrow> exn + 'r table option" where
  "create_table if_not_exists name cols t =
     (case t of
        None \<Rightarrow> Inr (Some \<lparr>columns = cols, rows = [], seq = 0\<rparr>)
      | Some old \<Rightarrow>
          if if_not_exists then Inr (Some old)
          else Inl (OperationalError (''table '' @ name @ '' already exists'')))"

definition init_database :: "database \<Rightarrow> exn + database" where
  "init_database d =
     (case create_table True ''conversation_logs'' conversation_logs_columns
             (conversation_logs d) of
        Inl e \<Rightarrow> Inl e
      | Inr logs \<Rightarrow>
          (case create_table True ''training_data'' training_data_columns
                  (training_data d) of
             Inl e \<Rightarrow> Inl e
           | Inr training \<Rightarrow>
               Inr (d\<lparr>conversation_logs := logs, training_data := training\<rparr>)))"

text \<open>\<open>init_database\<close> called \<open>n\<close> times in a row, stopping at the first exception.\<close>

fun init_database_times :: "nat \<Rightarrow> database \<Rightarrow> exn + database" where
  "init_database_times 0 d = Inr d"
| "init_database_times (Suc n) d =
     (case init_database d of Inl e \<Rightarrow> Inl e | Inr d' \<Rightarrow> init_database_times n d')"

text \<open>
  The rowid an \<open>AUTOINCREMENT\<close> column gives a new row: one more than the largest rowid
  the table has ever held.
\<close>

definition next_rowid :: "int list \<Rightarrow> int \<Rightarrow> int" where
  "next_rowid ids s = fold max ids (max s 0) + 1"

definition log_conversation ::
  "nat \<Rightarrow> string \<Rightarrow> string \<Rightarrow> string option \<Rightarrow> database \<Rightarrow> exn + (int \<times> database)" where
  "log_conversation now question answer session_id d =
     (case conversation_logs d of
        None \<Rightarrow> Inl (OperationalError ''no such table: conversation_logs'')
      | Some t \<Rightarrow>
          let lastrowid = next_rowid (map log_id (rows t)) (seq t);
              row = \<lparr>log_id = lastrowid, log_question = question, log_answer = answer,
                     log_timestamp = now, log_session_id = session_id\<rparr>
          in Inr (lastrowid,
                  d\<lparr>conversation_logs := Some (t\<lparr>rows := rows t @ [row], seq := lastrowid\<rparr>)\<rparr>))"

definition add_training_data ::
  "nat \<Rightarrow> string \<Rightarrow> string \<Rightarrow> database \<Rightarrow> exn + (int \<times> database)" where
  "add_training_data now question answer d =
     (case training_data d of
        None \<Rightarrow> Inl (OperationalError ''no such table: training_data'')
      | Some t \<Rightarrow>
          let lastrowid = next_rowid (map tr_id (rows t)) (seq t);
              row = \<lparr>tr_id = lastrowid, tr_question = question, tr_answer = answer,
                     tr_created_at = now\<rparr>
          in Inr (lastrowid,
                  d\<lparr>training_data := Some (t\<lparr>rows := rows t @ [row], seq := lastrowid\<rparr>)\<rparr>))"

text \<open>
  \<open>ORDER BY key DESC\<close> over a table scan. SQLite leaves the order of rows with equal keys
  open; its sorter keeps them in scan (rowid) order, and so does this insertion sort: a row
  is placed before the first row of the sorted rest whose key is not larger.
\<close>

fun insert_desc :: "('r \<Rightarrow> nat) \<Rightarrow> 'r \<Rightarrow> 'r list \<Rightarrow> 'r list" where
  "insert_desc key x [] = [x]"
| "insert_desc key x (y # ys) =
     (if key y \<le> key x then x # y # ys else y # insert_desc key x ys)"

fun order_by_desc :: "('r \<Rightarrow> nat) \<Rightarrow> 'r list \<Rightarrow> 'r list" where
  "order_by_desc key [] = []"
| "order_by_desc key (x # xs) = insert_desc key x (order_by_desc key xs)"

definition get_all_logs :: "database \<Rightarrow> exn + log_row list" where
  "get_all_logs d =
     (case conversation_logs d of
        None \<Rightarrow> Inl (OperationalError ''no such table: conversation_logs'')
      | Some t \<Rightarrow> Inr (order_by_desc log_timestamp (rows t)))"

definition get_training_data :: "database \<Rightarrow> exn + training_row list" where
  "get_training_data d =
     (case training_data d of
        None \<Rightarrow> Inl (OperationalError ''no such table: training_data'')
      | Some t \<Rightarrow> Inr (order_by_desc tr_created_at (rows t)))"

section \<open>Chat orchestration service (chains.py)\<close>

text \<open>
  A chatbot instance: the API key, the system prompt its prompt template was built with, and
  the messages of its \<open>ConversationBufferMemory\<close>. The chain reads the memory by reference,
  so the record holds the one copy of it.
\<close>

record FAQChatbot =
  api_key :: string
  prompt :: string
  memory :: "message list"

definition base_prompt :: string where
  "base_prompt =
     ''You are a helpful FAQ chatbot assistant. You provide accurate, concise, and helpful answers to user questions.\<newline>'' @
     ''\<newline>'' @
     ''Key guidelines:\<newline>'' @
     ''1. Be helpful, friendly, and professional\<newline>'' @
     ''2. Provide clear and accurate information\<newline>'' @
     ''3. If you're unsure about something, acknowledge it\<newline>'' @
     ''4. Keep responses concise but comprehensive\<newline>'' @
     ''5. Use the conversation history to provide contextual responses\<newline>''"

text \<open>The f-string \<open>f"Q: {data['question']}\nA: {data['answer']}\n\n"\<close>.\<close>

definition qa_pair :: "string \<Rightarrow> string \<Rightarrow> string" where
  "qa_pair question answer =
     ''Q: '' @ question @ ''\<newline>'' @ ''A: '' @ answer @ ''\<newline>\<newline>''"

text \<open>
  \<open>FAQChatbot._get_system_prompt\<close>. The loop over \<open>training_data[:10]\<close> appends one
  pair after the other to \<open>training_context\<close>.
\<close>

definition get_system_prompt :: "database \<Rightarrow> exn + string" where
  "get_system_prompt d =
     (case get_training_data d of
        Inl e \<Rightarrow> Inl e
      | Inr training \<Rightarrow>
          if training \<noteq> [] then
            Inr (base_prompt @
                 fold (\<lambda>data training_context.
                         training_context @ qa_pair (tr_question data) (tr_answer data))
                   (take 10 training)
                   ''\<newline>\<newline>Here are some example Q&A pairs for reference:\<newline>'')
          else Inr base_prompt)"

text \<open>
  \<open>FAQChatbot.__init__\<close> with \<open>_create_chain\<close>: the key is checked, the model client is
  built, the memory starts empty, and the prompt template is built from the system prompt
  read from the training table.
\<close>

definition FAQChatbot_init :: "env \<Rightarrow> database \<Rightarrow> exn + FAQChatbot" where
  "FAQChatbot_init env d =
     (case GOOGLE_API_KEY env of
        None \<Rightarrow> Inl (ValueError ''GOOGLE_API_KEY not found in environment variables'')
      | Some k \<Rightarrow>
          if k = [] then Inl (ValueError ''GOOGLE_API_KEY not found in environment variables'')
          else
            (case new_llm env k of
               Some e \<Rightarrow> Inl e
             | None \<Rightarrow>
                 (case get_system_prompt d of
                    Inl e \<Rightarrow> Inl e
                  | Inr p \<Rightarrow>
                      (case from_messages env p of
                         Some e \<Rightarrow> Inl e
                       | None \<Rightarrow> Inr \<lparr>api_key = k, prompt = p, memory = []\<rparr>))))"

text \<open>
  \<open>FAQChatbot.ask\<close>. The whole body is inside \<open>try ... except Exception\<close>, so it always
  returns a string; \<open>save_context\<close> appends the human and the AI message to the memory.
  The second component is the chatbot after the call.
\<close>

definition ask :: "env \<Rightarrow> FAQChatbot \<Rightarrow> string \<Rightarrow> string option \<Rightarrow> string \<times> FAQChatbot" where
  "ask env self question session_id =
     (case chain_invoke env (prompt self) (memory self) question of
        Inr response \<Rightarrow>
          (response,
           self\<lparr>memory := memory self @ [HumanMessage question, AIMessage response]\<rparr>)
      | Inl e \<Rightarrow>
          (''I apologize, but I encountered an error while processing your question: '' @
             str_exn e,
           self))"

definition clear_memory :: "FAQChatbot \<Rightarrow> FAQChatbot" where
  "clear_memory self = self\<lparr>memory := []\<rparr>"

record memory_summary =
  total_messages :: nat
  conversation_pairs :: nat
  memory_buffer :: "message list"

definition get_memory_summary :: "FAQChatbot \<Rightarrow> memory_summary" where
  "get_memory_summary self =
     (let messages = memory self
      in \<lparr>total_messages = length messages,
          conversation_pairs = length messages div 2,
          memory_buffer = memory self\<rparr>)"

text \<open>
  The state of the process: the module global \<open>chatbot\<close> and the database file.
\<close>

record state =
  chatbot :: "FAQChatbot option"
  db :: database

definition get_chatbot :: "env \<Rightarrow> state \<Rightarrow> exn + (FAQChatbot \<times> state)" where
  "get_chatbot env st =
     (case chatbot st of
        Some cb \<Rightarrow> Inr (cb, st)
      | None \<Rightarrow>
          (case FAQChatbot_init env (db st) of
             Inl e \<Rightarrow> Inl e
           | Inr cb \<Rightarrow> Inr (cb, st\<lparr>chatbot := Some cb\<rparr>)))"

definition reset_chatbot :: "state \<Rightarrow> state" where
  "reset_chatbot st =
     (let st1 = (case chatbot st of
                   Some cb \<Rightarrow> st\<lparr>chatbot := Some (clear_memory cb)\<rparr>
                 | None \<Rightarrow> st)
      in st1\<lparr>chatbot := None\<rparr>)"

section \<open>HTTP handlers (app.py)\<close>

record QuestionRequest =
  req_question :: string
  req_session_id :: "string option"

record QuestionResponse =
  resp_answer :: string
  resp_question :: string
  resp_timestamp :: string
  resp_session_id :: "string option"

record TrainingRequest =
  train_question :: string
  train_answer :: string

record TrainingResponse =
  tresp_id :: int
  tresp_message :: string
  tresp_question :: string
  tresp_answer :: string

record HealthResponse =
  health_status :: string
  health_message :: string
  health_timestamp :: string

record StatusResponse =
  status :: string
  memory_info :: memory_summary
  status_timestamp :: string

text \<open>
  Every handler but the health check and the startup hook is
  \<open>try: ... except Exception as e: raise HTTPException(status_code=500, detail=f"...{str(e)}")\<close>.
  The handler's \<open>try\<close> body is modelled on its own (suffix \<open>_try\<close>); \<open>except_Exception\<close>
  is the \<open>except\<close> clause, which catches every exception the body raised, an
  \<open>HTTPException\<close> included. What the body did to the state before raising stays done.
\<close>

definition except_Exception :: "string \<Rightarrow> (exn + 'a) \<times> state \<Rightarrow> (exn + 'a) \<times> state" where
  "except_Exception detail_prefix r =
     (case r of
        (Inl e, st) \<Rightarrow> (Inl (HTTPException 500 (detail_prefix @ str_exn e)), st)
      | (Inr body, st) \<Rightarrow> (Inr body, st))"

definition startup_event :: "state \<Rightarrow> (exn + unit) \<times> state" where
  "startup_event st =
     (case init_database (db st) of
        Inl e \<Rightarrow> (Inl e, st)
      | Inr d \<Rightarrow> (Inr (), st\<lparr>db := d\<rparr>))"

definition health_check :: "env \<Rightarrow> state \<Rightarrow> (exn + HealthResponse) \<times> state" where
  "health_check env st =
     (Inr \<lparr>health_status = ''healthy'',
           health_message = ''Smart FAQ Chatbot API is running successfully!'',
           health_timestamp = isoformat env\<rparr>,
      st)"

definition ask_question_try ::
  "env \<Rightarrow> state \<Rightarrow> QuestionRequest \<Rightarrow> (exn + QuestionResponse) \<times> state" where
  "ask_question_try env st request =
     (if strip (req_question request) = [] then
        (Inl (HTTPException 400 ''Question cannot be empty''), st)
      else
        (case get_chatbot env st of
           Inl e \<Rightarrow> (Inl e, st)
         | Inr (cb, st1) \<Rightarrow>
             (case ask env cb (req_question request) (req_session_id request) of
                (answer, cb') \<Rightarrow>
                  let st2 = st1\<lparr>chatbot := Some cb'\<rparr>
                  in (case log_conversation (clock env) (req_question request) answer
                             (req_session_id request) (db st2) of
                        Inl e \<Rightarrow> (Inl e, st2)
                      | Inr (lastrowid, d) \<Rightarrow>
                          (Inr \<lparr>resp_answer = answer,
                                resp_question = req_question request,
                                resp_timestamp = isoformat env,
                                resp_session_id = req_session_id request\<rparr>,
                           st2\<lparr>db := d\<rparr>)))))"

definition ask_question ::
  "env \<Rightarrow> state \<Rightarrow> QuestionRequest \<Rightarrow> (exn + QuestionResponse) \<times> state" where
  "ask_question env st request =
     except_Exception ''Internal server error: '' (ask_question_try env st request)"

definition get_logs :: "state \<Rightarrow> (exn + log_row list) \<times> state" where
  "get_logs st =
     except_Exception ''Failed to retrieve logs: ''
       (case get_all_logs (db st) of
          Inl e \<Rightarrow> (Inl e, st)
        | Inr logs \<Rightarrow>
            (Inr (map (\<lambda>log. \<lparr>log_id = log_id log,
                               log_question = log_question log,
                               log_answer = log_answer log,
                               log_timestamp = log_timestamp log,
                               log_session_id = log_session_id log\<rparr>) logs),
             st))"

definition add_training_try ::
  "env \<Rightarrow> state \<Rightarrow> TrainingRequest \<Rightarrow> (exn + TrainingResponse) \<times> state" where
  "add_training_try env st request =
     (if strip (train_question request) = [] \<or> strip (train_answer request) = [] then
        (Inl (HTTPException 400 ''Both question and answer are required''), st)
      else
        (case add_training_data (clock env) (train_question request) (train_answer request)
                (db st) of
           Inl e \<Rightarrow> (Inl e, st)
         | Inr (training_id, d) \<Rightarrow>
             (Inr \<lparr>tresp_id = training_id,
                   tresp_message = ''Training data added successfully'',
                   tresp_question = train_question request,
                   tresp_answer = train_answer request\<rparr>,
              reset_chatbot (st\<lparr>db := d\<rparr>))))"

definition add_training ::
  "env \<Rightarrow> state \<Rightarrow> TrainingRequest \<Rightarrow> (exn + TrainingResponse) \<times> state" where
  "add_training env st request =
     except_Exception ''Failed to add training data: '' (add_training_try env st request)"

definition get_training :: "state \<Rightarrow> (exn + training_row list) \<times> state" where
  "get_training st =
     except_Exception ''Failed to retrieve training data: ''
       (case get_training_data (db st) of
          Inl e \<Rightarrow> (Inl e, st)
        | Inr training \<Rightarrow> (Inr training, st))"

definition reset_conversation :: "state \<Rightarrow> (exn + string) \<times> state" where
  "reset_conversation st =
     except_Exception ''Failed to reset conversation: ''
       (Inr ''Conversation memory reset successfully'', reset_chatbot st)"

definition get_status :: "env \<Rightarrow> state \<Rightarrow> (exn + StatusResponse) \<times> state" where
  "get_status env st =
     except_Exception ''Failed to get status: ''
       (case get_chatbot env st of
          Inl e \<Rightarrow> (Inl e, st)
        | Inr (cb, st1) \<Rightarrow>
            (Inr \<lparr>status = ''active'',
                  memory_info = get_memory_summary cb,
                  status_timestamp = isoformat env\<rparr>,
             st1))"

text \<open>
  The requests the service receives, and the state after handling one and after handling a
  sequence of them, each with the environment it ran in.
\<close>

datatype request =
    Startup
  | Health
  | Ask QuestionRequest
  | Logs
  | Train TrainingRequest
  | Training
  | Reset
  | Status

fun handle :: "env \<Rightarrow> request \<Rightarrow> state \<Rightarrow> state" where
  "handle env Startup st = snd (startup_event st)"
| "handle env Health st = snd (health_check env st)"
| "handle env (Ask request) st = snd (ask_question env st request)"
| "handle env Logs st = snd (get_logs st)"
| "handle env (Train request) st = snd (add_training env st request)"
| "handle env Training st = snd (get_training st)"
| "handle env Reset st = snd (reset_conversation st)"
| "handle env Status st = snd (get_status env st)"

fun run :: "(env \<times> request) list \<Rightarrow> state \<Rightarrow> state" where
  "run [] st = st"
| "run ((env, r) # rs) st = run rs (handle env r st)"

section \<open>Example environments, states and requests\<close>

text \<open>
  Concrete inputs on which the theorems below are exercised: an environment at clock second
  \<open>t\<close> with an API key, library constructors that succeed, and a model call that answers
  \<open>model_reply\<close>; the state of a fresh process after its startup hook; and a state that
  holds four messages in memory.
\<close>

definition example_env :: "nat \<Rightarrow> exn + string \<Rightarrow> env" where
  "example_env t model_reply =
     \<lparr>GOOGLE_API_KEY = Some ''key'',
      clock = t,
      isoformat = ''2024-01-01T00:00:00'',
      new_llm = (\<lambda>k. None),
      from_messages = (\<lambda>p. None),
      chain_invoke = (\<lambda>p history question. model_reply)\<rparr>"

definition fresh_state :: state where
  "fresh_state =
     \<lparr>chatbot = None,
      db = \<lparr>conversation_logs =
              Some \<lparr>columns = conversation_logs_columns, rows = [], seq = 0\<rparr>,
            training_data =
              Some \<lparr>columns = training_data_columns, rows = [], seq = 0\<rparr>\<rparr>\<rparr>"

definition talked_state :: state where
  "talked_state =
     fresh_state\<lparr>chatbot :=
       Some \<lparr>api_key = ''key'', prompt = base_prompt,
             memory = [HumanMessage ''Hi'', AIMessage ''Hello'',
                       HumanMessage ''Open?'', AIMessage ''9-5'']\<rparr>\<rparr>"

definition hours_question :: QuestionRequest where
  "hours_question = \<lparr>req_question = ''What are your hours?'', req_session_id = Some ''s1''\<rparr>"

definition hours_training :: TrainingRequest where
  "hours_training = \<lparr>train_question = ''What are your hours?'', train_answer = ''9-5 Mon-Fri''\<rparr>"

definition delivery_training :: TrainingRequest where
  "delivery_training = \<lparr>train_question = ''Do you deliver?'', train_answer = ''Yes, daily''\<rparr>"

section \<open>Properties of the persistence layer\<close>

lemma create_table_if_not_exists:
  "\<exists>t'. create_table True name cols t = Inr (Some t')"
  by (cases t) (simp_all add: create_table_def)

lemma create_table_existing:
  "create_table True name cols (Some t) = Inr (Some t)"
  by (simp add: create_table_def)

lemma init_database_tables:
  "\<exists>logs training.
     init_database d = Inr (d\<lparr>conversation_logs := Some logs, training_data := Some training\<rparr>)"
proof -
  obtain logs where l: "create_table True ''conversation_logs'' conversation_logs_columns
      (conversation_logs d) = Inr (Some logs)"
    using create_table_if_not_exists by blast
  obtain training where t: "create_table True ''training_data'' training_data_columns
      (training_data d) = Inr (Some training)"
    using create_table_if_not_exists by blast
  show ?thesis
    unfolding init_database_def using l t by auto
qed

lemma init_database_fixed:
  assumes "init_database d = Inr d'"
  shows "init_database d' = Inr d'"
proof -
  obtain logs training where
    "init_database d = Inr (d\<lparr>conversation_logs := Some logs, training_data := Some training\<rparr>)"
    using init_database_tables by blast
  with assms have "d' = d\<lparr>conversation_logs := Some logs, training_data := Some training\<rparr>"
    by simp
  then show ?thesis
    by (simp add: init_database_def create_table_existing)
qed

lemma init_database_times_fixed:
  "init_database d = Inr d \<Longrightarrow> init_database_times n d = Inr d"
  by (induction n) simp_all

text \<open>
  C9. \<open>init_database\<close> is idempotent. From any database state it raises no error; once it
  has run (the state \<open>d'\<close> it returned), calling it again any number of times raises no
  error and returns \<open>d'\<close> itself, so the column declarations of both tables, their rows and
  their rowid counters are what the first call left.
\<close>

theorem init_database_idempotent:
  "\<exists>d'. init_database d = Inr d' \<and>
        init_database d' = Inr d' \<and>
        init_database_times n d' = Inr d' \<and>
        conversation_logs d' =
          Some (case conversation_logs d of
                  None \<Rightarrow> \<lparr>columns = conversation_logs_columns, rows = [], seq = 0\<rparr>
                | Some t \<Rightarrow> t) \<and>
        training_data d' =
          Some (case training_data d of
                  None \<Rightarrow> \<lparr>columns = training_data_columns, rows = [], seq = 0\<rparr>
                | Some t \<Rightarrow> t)"
proof -
  obtain d' where d': "init_database d = Inr d'"
    using init_database_tables by blast
  have again: "init_database d' = Inr d'"
    using d' by (rule init_database_fixed)
  have "conversation_logs d' =
          Some (case conversation_logs d of
                  None \<Rightarrow> \<lparr>columns = conversation_logs_columns, rows = [], seq = 0\<rparr>
                | Some t \<Rightarrow> t)"
    using d' by (auto simp: init_database_def create_table_def split: option.splits)
  moreover have "training_data d' =
          Some (case training_data d of
                  None \<Rightarrow> \<lparr>columns = training_data_columns, rows = [], seq = 0\<rparr>
                | Some t \<Rightarrow> t)"
    using d' by (auto simp: init_database_def create_table_def split: option.splits)
  ultimately show ?thesis
    using d' again init_database_times_fixed [OF again] by blast
qed

section \<open>Properties of the orchestration service and the handlers\<close>


lemma get_chatbot_state:
  "get_chatbot env st = Inr (cb, st1) \<Longrightarrow> st1 = st\<lparr>chatbot := Some cb\<rparr>"
  by (auto simp: get_chatbot_def split: option.splits sum.splits)

lemma ask_failure:
  "chain_invoke env (prompt cb) (memory cb) q = Inl e \<Longrightarrow>
   ask env cb q sid =
     (''I apologize, but I encountered an error while processing your question: '' @ str_exn e, cb)"
  by (simp add: ask_def)

lemma ask_question_nonblank:
  assumes "strip (req_question request) \<noteq> []"
    and "get_chatbot env st = Inr (cb, st1)"
    and "ask env cb (req_question request) (req_session_id request) = (answer, cb')"
    and "conversation_logs (db st) = Some t"
  shows "ask_question env st request =
     (Inr \<lparr>resp_answer = answer, resp_question = req_question request,
           resp_timestamp = isoformat env, resp_session_id = req_session_id request\<rparr>,
      st\<lparr>chatbot := Some cb',
         db := (db st)\<lparr>conversation_logs :=
           Some (t\<lparr>rows := rows t @
                    [\<lparr>log_id = next_rowid (map log_id (rows t)) (seq t),
                      log_question = req_question request, log_answer = answer,
                      log_timestamp = clock env, log_session_id = req_session_id request\<rparr>],
                  seq := next_rowid (map log_id (rows t)) (seq t)\<rparr>)\<rparr>\<rparr>)"
  using assms get_chatbot_state [OF assms(2)]
  by (simp add: ask_question_def ask_question_try_def except_Exception_def
      log_conversation_def Let_def)

text \<open>
  C2. When the model call inside \<open>ask\<close> raises an exception \<open>e\<close>, \<open>ask\<close> returns (it has
  no exceptional outcome) the fixed apologetic text followed by \<open>str(e)\<close>; \<open>/ask\<close> then
  answers 200 with that text as the answer and appends to the conversation log one row
  whose answer is that text. The request is one the handler passes on to \<open>ask\<close>: a
  non-blank question, a chatbot that can be obtained, and an existing log table.
\<close>

theorem ask_failure_apology:
  assumes "strip (req_question request) \<noteq> []"
    and "get_chatbot env st = Inr (cb, st1)"
    and "chain_invoke env (prompt cb) (memory cb) (req_question request) = Inl e"
    and "conversation_logs (db st) = Some t"
  shows "\<exists>resp st' t'.
     fst (ask env cb (req_question request) (req_session_id request)) =
       ''I apologize, but I encountered an error while processing your question: '' @ str_exn e \<and>
     ask_question env st request = (Inr resp, st') \<and>
     resp_answer resp =
       ''I apologize, but I encountered an error while processing your question: '' @ str_exn e \<and>
     conversation_logs (db st') = Some t' \<and>
     rows t' = rows t @
       [\<lparr>log_id = next_rowid (map log_id (rows t)) (seq t),
         log_question = req_question request,
         log_answer =
           ''I apologize, but I encountered an error while processing your question: '' @ str_exn e,
         log_timestamp = clock env,
         log_session_id = req_session_id request\<rparr>]"
  using ask_question_nonblank [OF assms(1,2) ask_failure [OF assms(3)] assms(4)]
    ask_failure [OF assms(3)]
  by simp

text \<open>
  C10. When the model call inside \<open>ask\<close> raises, the chatbot's memory after \<open>ask\<close> is the
  memory before it, also in the state \<open>/ask\<close> leaves behind, while the conversation log has
  grown by one row whose answer is the apologetic text.
\<close>

theorem ask_failure_memory:
  assumes "strip (req_question request) \<noteq> []"
    and "get_chatbot env st = Inr (cb, st1)"
    and "chain_invoke env (prompt cb) (memory cb) (req_question request) = Inl e"
    and "conversation_logs (db st) = Some t"
  shows "\<exists>resp st' t'.
     memory (snd (ask env cb (req_question request) (req_session_id request))) = memory cb \<and>
     ask_question env st request = (Inr resp, st') \<and>
     map_option memory (chatbot st') = Some (memory cb) \<and>
     conversation_logs (db st') = Some t' \<and>
     length (rows t') = Suc (length (rows t)) \<and>
     log_answer (last (rows t')) =
       ''I apologize, but I encountered an error while processing your question: '' @ str_exn e"
  using ask_question_nonblank [OF assms(1,2) ask_failure [OF assms(3)] assms(4)]
    ask_failure [OF assms(3)]
  by simp

lemma ask_question_success_cases:
  assumes "ask_question env st request = (Inr resp, st')"
  obtains cb st1 answer cb' t where
    "strip (req_question request) \<noteq> []"
    "get_chatbot env st = Inr (cb, st1)"
    "ask env cb (req_question request) (req_session_id request) = (answer, cb')"
    "conversation_logs (db st) = Some t"
proof -
  have nonblank: "strip (req_question request) \<noteq> []"
    using assms
    by (auto simp: ask_question_def ask_question_try_def except_Exception_def)
  obtain cb st1 where gc: "get_chatbot env st = Inr (cb, st1)"
    using assms nonblank
    by (cases "get_chatbot env st")
      (auto simp: ask_question_def ask_question_try_def except_Exception_def)
  obtain answer cb' where a:
    "ask env cb (req_question request) (req_session_id request) = (answer, cb')"
    by (cases "ask env cb (req_question request) (req_session_id request)")
  have "db st1 = db st"
    using get_chatbot_state [OF gc] by simp
  then obtain t where "conversation_logs (db st) = Some t"
    using assms nonblank gc a
    by (cases "conversation_logs (db st)")
      (auto simp: ask_question_def ask_question_try_def except_Exception_def
        log_conversation_def)
  with nonblank gc a show thesis
    by (rule that)
qed

text \<open>
  C3. A successful \<open>/ask\<close> call (one that returns a response body) leaves the conversation
  log with exactly one row more than before, appended after the old rows, and the question
  and answer of that row are the question and answer of the response body. The training
  table is untouched.
\<close>

theorem ask_question_logs_one_row:
  assumes "ask_question env st request = (Inr resp, st')"
  shows "\<exists>t t' row.
     conversation_logs (db st) = Some t \<and>
     conversation_logs (db st') = Some t' \<and>
     rows t' = rows t @ [row] \<and>
     log_question row = resp_question resp \<and>
     log_answer row = resp_answer resp \<and>
     training_data (db st') = training_data (db st)"
proof -
  obtain cb st1 answer cb' t where h:
    "strip (req_question request) \<noteq> []"
    "get_chatbot env st = Inr (cb, st1)"
    "ask env cb (req_question request) (req_session_id request) = (answer, cb')"
    "conversation_logs (db st) = Some t"
    using assms by (rule ask_question_success_cases)
  show ?thesis
    using assms h(4) ask_question_nonblank [OF h]
    by auto
qed

theorem ask_question_logs_one_row_witness:
  "\<exists>resp st'.
     ask_question (example_env 7 (Inr ''9-5 Mon-Fri'')) fresh_state hours_question = (Inr resp, st') \<and>
     resp_answer resp = ''9-5 Mon-Fri'' \<and>
     (\<exists>t t' row.
        conversation_logs (db fresh_state) = Some t \<and>
        conversation_logs (db st') = Some t' \<and>
        rows t' = rows t @ [row] \<and>
        log_question row = resp_question resp \<and>
        log_answer row = resp_answer resp \<and>
        training_data (db st') = training_data (db fresh_state))"
proof -
  obtain resp st' where r:
    "ask_question (example_env 7 (Inr ''9-5 Mon-Fri'')) fresh_state hours_question = (Inr resp, st')"
    "resp_answer resp = ''9-5 Mon-Fri''"
    by (simp add: ask_question_def ask_question_try_def except_Exception_def
        example_env_def fresh_state_def hours_question_def strip_def isspace_def
        get_chatbot_def FAQChatbot_init_def get_system_prompt_def get_training_data_def
        ask_def log_conversation_def next_rowid_def)
  show ?thesis
    using r ask_question_logs_one_row [OF r(1)] by blast
qed


lemma strip_hours_question: "strip (req_question hours_question) \<noteq> []"
  by (simp add: hours_question_def strip_def isspace_def)

lemma get_chatbot_fresh:
  "get_chatbot (example_env t reply) fresh_state =
     Inr (\<lparr>api_key = ''key'', prompt = base_prompt, memory = []\<rparr>,
          fresh_state\<lparr>chatbot := Some \<lparr>api_key = ''key'', prompt = base_prompt, memory = []\<rparr>\<rparr>)"
  by (simp add: get_chatbot_def FAQChatbot_init_def get_system_prompt_def
      get_training_data_def example_env_def fresh_state_def)

lemma get_chatbot_talked:
  "get_chatbot env talked_state =
     Inr (\<lparr>api_key = ''key'', prompt = base_prompt,
           memory = [HumanMessage ''Hi'', AIMessage ''Hello'',
                     HumanMessage ''Open?'', AIMessage ''9-5'']\<rparr>, talked_state)"
  by (simp add: get_chatbot_def talked_state_def)

lemma conversation_logs_fresh:
  "conversation_logs (db fresh_state) =
     Some \<lparr>columns = conversation_logs_columns, rows = [], seq = 0\<rparr>"
  by (simp add: fresh_state_def)

lemma conversation_logs_talked:
  "conversation_logs (db talked_state) =
     Some \<lparr>columns = conversation_logs_columns, rows = [], seq = 0\<rparr>"
  by (simp add: talked_state_def fresh_state_def)

theorem ask_failure_apology_witness:
  "strip (req_question hours_question) \<noteq> [] \<and>
   (\<exists>resp st' t'.
      ask_question (example_env 7 (Inl (LibraryError ''quota exceeded''))) fresh_state
        hours_question = (Inr resp, st') \<and>
      resp_answer resp =
        ''I apologize, but I encountered an error while processing your question: quota exceeded'' \<and>
      conversation_logs (db st') = Some t' \<and>
      map log_answer (rows t') =
        [''I apologize, but I encountered an error while processing your question: quota exceeded''])"
proof -
  have inv: "chain_invoke (example_env 7 (Inl (LibraryError ''quota exceeded'')))
      (prompt \<lparr>api_key = ''key'', prompt = base_prompt, memory = []\<rparr>)
      (memory \<lparr>api_key = ''key'', prompt = base_prompt, memory = []\<rparr>)
      (req_question hours_question) = Inl (LibraryError ''quota exceeded'')"
    by (simp add: example_env_def)
  show ?thesis
    using strip_hours_question
      ask_failure_apology [OF strip_hours_question get_chatbot_fresh inv conversation_logs_fresh]
    by auto
qed

theorem ask_failure_memory_witness:
  "\<exists>resp st' t'.
      ask_question (example_env 7 (Inl (LibraryError ''quota exceeded''))) talked_state
        hours_question = (Inr resp, st') \<and>
      map_option memory (chatbot st') =
        Some [HumanMessage ''Hi'', AIMessage ''Hello'', HumanMessage ''Open?'', AIMessage ''9-5''] \<and>
      conversation_logs (db st') = Some t' \<and>
      length (rows t') = 1 \<and>
      log_answer (last (rows t')) =
        ''I apologize, but I encountered an error while processing your question: quota exceeded''"
proof -
  have inv: "chain_invoke (example_env 7 (Inl (LibraryError ''quota exceeded'')))
      (prompt \<lparr>api_key = ''key'', prompt = base_prompt,
           memory = [HumanMessage ''Hi'', AIMessage ''Hello'',
                     HumanMessage ''Open?'', AIMessage ''9-5'']\<rparr>)
      (memory \<lparr>api_key = ''key'', prompt = base_prompt,
           memory = [HumanMessage ''Hi'', AIMessage ''Hello'',
                     HumanMessage ''Open?'', AIMessage ''9-5'']\<rparr>)
      (req_question hours_question) = Inl (LibraryError ''quota exceeded'')"
    by (simp add: example_env_def)
  show ?thesis
    using ask_failure_memory [OF strip_hours_question get_chatbot_talked inv conversation_logs_talked]
    by auto
qed

text \<open>
  C1. The blank-input check raises \<open>HTTPException(status_code=400)\<close> inside the handler's
  own \<open>try\<close> block, and the \<open>except Exception\<close> clause of that block catches it and raises
  \<open>HTTPException(status_code=500)\<close> in its place. For the blank question \<open>"   "\<close> sent to
  \<open>/ask\<close> and the blank answer \<open>" "\<close> sent to \<open>/train\<close> the status is 500, in every
  environment and state; the state, and with it both tables, is left as it was.
\<close>

theorem blank_request_status:
  "status_code (fst (ask_question env st \<lparr>req_question = ''   '', req_session_id = None\<rparr>)) = 500 \<and>
   snd (ask_question env st \<lparr>req_question = ''   '', req_session_id = None\<rparr>) = st \<and>
   status_code (fst (add_training env st
      \<lparr>train_question = ''What are your hours?'', train_answer = '' ''\<rparr>)) = 500 \<and>
   snd (add_training env st
      \<lparr>train_question = ''What are your hours?'', train_answer = '' ''\<rparr>) = st"
  by (simp add: ask_question_def ask_question_try_def add_training_def add_training_try_def
      except_Exception_def strip_def isspace_def)

lemma reset_chatbot_eq: "reset_chatbot st = st\<lparr>chatbot := None\<rparr>"
  by (simp add: reset_chatbot_def split: option.splits)

lemma FAQChatbot_init_memory: "FAQChatbot_init env d = Inr cb \<Longrightarrow> memory cb = []"
  by (auto simp: FAQChatbot_init_def split: option.splits sum.splits if_splits)

text \<open>
  C6. After \<open>/reset\<close>, a \<open>/status\<close> call that returns a body reports a memory summary with
  \<open>total_messages = 0\<close> (and no pairs and an empty buffer), whatever the memory held before
  the reset.
\<close>

theorem reset_then_status:
  assumes "fst (get_status env (snd (reset_conversation st))) = Inr resp"
  shows "total_messages (memory_info resp) = 0 \<and>
         conversation_pairs (memory_info resp) = 0 \<and>
         memory_buffer (memory_info resp) = []"
proof -
  have st: "snd (reset_conversation st) = st\<lparr>chatbot := None\<rparr>"
    by (simp add: reset_conversation_def except_Exception_def reset_chatbot_eq)
  obtain cb where cb: "FAQChatbot_init env (db st) = Inr cb"
    and resp: "memory_info resp = get_memory_summary cb"
    using assms unfolding st
    by (cases "FAQChatbot_init env (db st)")
      (auto simp: get_status_def get_chatbot_def except_Exception_def)
  show ?thesis
    using resp FAQChatbot_init_memory [OF cb]
    by (simp add: get_memory_summary_def)
qed

theorem reset_then_status_witness:
  "\<exists>before after.
     fst (get_status (example_env 9 (Inr ''ok'')) talked_state) = Inr before \<and>
     total_messages (memory_info before) = 4 \<and>
     fst (get_status (example_env 9 (Inr ''ok'')) (snd (reset_conversation talked_state))) =
       Inr after \<and>
     total_messages (memory_info after) = 0"
proof -
  obtain before where b: "fst (get_status (example_env 9 (Inr ''ok'')) talked_state) = Inr before"
    "total_messages (memory_info before) = 4"
    by (simp add: get_status_def get_chatbot_talked except_Exception_def get_memory_summary_def)
  have "snd (reset_conversation talked_state) = fresh_state"
    by (simp add: reset_conversation_def except_Exception_def reset_chatbot_eq
        talked_state_def fresh_state_def)
  then obtain after where a:
    "fst (get_status (example_env 9 (Inr ''ok'')) (snd (reset_conversation talked_state))) =
       Inr after"
    by (simp add: get_status_def get_chatbot_fresh except_Exception_def)
  show ?thesis
    using b a reset_then_status [OF a] by blast
qed

text \<open>
  C7. The session id is inert. For the same environment (the same model replies), chatbot
  and question, \<open>ask\<close> returns the same answer and leaves the same chatbot, memory
  included, for any two session ids, \<open>None\<close> included. For \<open>/ask\<close> from the same state, the
  two outcomes (an exception, or a body) agree once the \<open>session_id\<close> field of the body is
  blanked, the chatbot and the training table afterwards are the same, and the
  conversation logs afterwards agree once the \<open>session_id\<close> column is blanked.
\<close>

theorem session_id_inert:
  "ask env cb question sid1 = ask env cb question sid2 \<and>
   map_sum id (\<lambda>resp. resp\<lparr>resp_session_id := None\<rparr>)
     (fst (ask_question env st \<lparr>req_question = question, req_session_id = sid1\<rparr>)) =
   map_sum id (\<lambda>resp. resp\<lparr>resp_session_id := None\<rparr>)
     (fst (ask_question env st \<lparr>req_question = question, req_session_id = sid2\<rparr>)) \<and>
   chatbot (snd (ask_question env st \<lparr>req_question = question, req_session_id = sid1\<rparr>)) =
   chatbot (snd (ask_question env st \<lparr>req_question = question, req_session_id = sid2\<rparr>)) \<and>
   training_data (db (snd (ask_question env st \<lparr>req_question = question, req_session_id = sid1\<rparr>))) =
   training_data (db (snd (ask_question env st \<lparr>req_question = question, req_session_id = sid2\<rparr>))) \<and>
   map_option (\<lambda>t. t\<lparr>rows := map (\<lambda>row. row\<lparr>log_session_id := None\<rparr>) (rows t)\<rparr>)
     (conversation_logs (db (snd (ask_question env st \<lparr>req_question = question, req_session_id = sid1\<rparr>)))) =
   map_option (\<lambda>t. t\<lparr>rows := map (\<lambda>row. row\<lparr>log_session_id := None\<rparr>) (rows t)\<rparr>)
     (conversation_logs (db (snd (ask_question env st \<lparr>req_question = question, req_session_id = sid2\<rparr>))))"
proof -
  have a: "ask env cb question sid1 = ask env cb question sid2" for cb
    by (simp add: ask_def)
  show ?thesis
    by (auto simp: ask_question_def ask_question_try_def except_Exception_def a
      log_conversation_def Let_def
      split: sum.splits prod.splits option.splits)
qed


lemma get_system_prompt_logs:
  "get_system_prompt (d\<lparr>conversation_logs := logs\<rparr>) = get_system_prompt d"
  by (simp add: get_system_prompt_def get_training_data_def)

lemma FAQChatbot_init_logs:
  "FAQChatbot_init env (d\<lparr>conversation_logs := logs\<rparr>) = FAQChatbot_init env d"
  by (simp add: FAQChatbot_init_def get_system_prompt_logs split: option.splits)

text \<open>
  C8. Resetting the chatbot singleton leaves the database as it is: \<open>reset_chatbot\<close> and
  \<open>/reset\<close> return the state with the same tables; after \<open>/train\<close> the database is exactly
  what the \<open>INSERT\<close> of \<open>add_training_data\<close> left (or the old one, when nothing was
  inserted), with the conversation log untouched. Logged conversations never come back into
  memory: the chatbot the constructor builds does not depend on the conversation log, and the
  chatbot obtained after a reset has empty memory.
\<close>

theorem reset_leaves_tables:
  "db (reset_chatbot st) = db st \<and>
   db (snd (reset_conversation st)) = db st \<and>
   db (snd (add_training env st request)) =
     (if strip (train_question request) = [] \<or> strip (train_answer request) = [] then db st
      else case add_training_data (clock env) (train_question request) (train_answer request)
                  (db st) of
             Inl e \<Rightarrow> db st
           | Inr (training_id, d) \<Rightarrow> d) \<and>
   conversation_logs (db (snd (add_training env st request))) = conversation_logs (db st) \<and>
   FAQChatbot_init env (d\<lparr>conversation_logs := logs\<rparr>) = FAQChatbot_init env d \<and>
   (\<forall>cb st'. get_chatbot env (reset_chatbot st) = Inr (cb, st') \<longrightarrow>
      memory cb = [] \<and> db st' = db st)"
proof -
  have r: "db (reset_chatbot s) = db s" for s
    by (simp add: reset_chatbot_eq)
  have t: "db (snd (add_training env st request)) =
     (if strip (train_question request) = [] \<or> strip (train_answer request) = [] then db st
      else case add_training_data (clock env) (train_question request) (train_answer request)
                  (db st) of
             Inl e \<Rightarrow> db st
           | Inr (training_id, d) \<Rightarrow> d)"
    by (simp add: add_training_def add_training_try_def except_Exception_def r
        split: sum.splits prod.splits)
  have l: "conversation_logs (db (snd (add_training env st request))) = conversation_logs (db st)"
    unfolding t
    by (auto simp: add_training_data_def Let_def split: sum.splits option.splits)
  have m: "memory cb = [] \<and> db st' = db st"
    if "get_chatbot env (reset_chatbot st) = Inr (cb, st')" for cb st'
    using that FAQChatbot_init_memory [of env "db st" cb]
    by (auto simp: get_chatbot_def reset_chatbot_eq split: sum.splits)
  have c: "db (snd (reset_conversation st)) = db st"
    by (simp add: reset_conversation_def except_Exception_def r)
  show ?thesis
  proof (intro conjI allI impI)
    show "db (reset_chatbot st) = db st"
      by (rule r)
    show "db (snd (reset_conversation st)) = db st"
      by (rule c)
    show "db (snd (add_training env st request)) =
     (if strip (train_question request) = [] \<or> strip (train_answer request) = [] then db st
      else case add_training_data (clock env) (train_question request) (train_answer request)
                  (db st) of
             Inl e \<Rightarrow> db st
           | Inr (training_id, d) \<Rightarrow> d)"
      by (rule t)
    show "conversation_logs (db (snd (add_training env st request))) = conversation_logs (db st)"
      by (rule l)
    show "FAQChatbot_init env (d\<lparr>conversation_logs := logs\<rparr>) = FAQChatbot_init env d"
      by (rule FAQChatbot_init_logs)
  next
    fix cb st'
    assume g: "get_chatbot env (reset_chatbot st) = Inr (cb, st')"
    show "memory cb = []"
      using m [OF g] by simp
    show "db st' = db st"
      using m [OF g] by simp
  qed
qed

lemma ask_talked:
  "ask_question (example_env 7 (Inr ''9-5 Mon-Fri'')) fresh_state hours_question =
    (Inr \<lparr>resp_answer = ''9-5 Mon-Fri'', resp_question = ''What are your hours?'',
          resp_timestamp = ''2024-01-01T00:00:00'', resp_session_id = Some ''s1''\<rparr>,
     \<lparr>chatbot = Some \<lparr>api_key = ''key'', prompt = base_prompt,
         memory = [HumanMessage ''What are your hours?'', AIMessage ''9-5 Mon-Fri'']\<rparr>,
      db = \<lparr>conversation_logs =
              Some \<lparr>columns = conversation_logs_columns,
                    rows = [\<lparr>log_id = 1, log_question = ''What are your hours?'',
                             log_answer = ''9-5 Mon-Fri'', log_timestamp = 7,
                             log_session_id = Some ''s1''\<rparr>],
                    seq = 1\<rparr>,
            training_data =
              Some \<lparr>columns = training_data_columns, rows = [], seq = 0\<rparr>\<rparr>\<rparr>)"
  by (simp add: ask_question_def ask_question_try_def except_Exception_def
        example_env_def fresh_state_def hours_question_def strip_def isspace_def
        get_chatbot_def FAQChatbot_init_def get_system_prompt_def get_training_data_def
        ask_def log_conversation_def next_rowid_def)

theorem reset_leaves_tables_witness:
  "\<exists>st cb st'.
     st = snd (ask_question (example_env 7 (Inr ''9-5 Mon-Fri'')) fresh_state hours_question) \<and>
     map_option (length \<circ> memory) (chatbot st) = Some 2 \<and>
     map_option (length \<circ> rows) (conversation_logs (db st)) = Some 1 \<and>
     get_chatbot (example_env 8 (Inr ''ok'')) (reset_chatbot st) = Inr (cb, st') \<and>
     memory cb = [] \<and> db st' = db st"
proof -
  define st where "st = snd (ask_question (example_env 7 (Inr ''9-5 Mon-Fri'')) fresh_state hours_question)"
  have st: "st =
     \<lparr>chatbot = Some \<lparr>api_key = ''key'', prompt = base_prompt,
         memory = [HumanMessage ''What are your hours?'', AIMessage ''9-5 Mon-Fri'']\<rparr>,
      db = \<lparr>conversation_logs =
              Some \<lparr>columns = conversation_logs_columns,
                    rows = [\<lparr>log_id = 1, log_question = ''What are your hours?'',
                             log_answer = ''9-5 Mon-Fri'', log_timestamp = 7,
                             log_session_id = Some ''s1''\<rparr>],
                    seq = 1\<rparr>,
            training_data =
              Some \<lparr>columns = training_data_columns, rows = [], seq = 0\<rparr>\<rparr>\<rparr>"
    by (simp only: st_def ask_talked snd_conv)
  have a: "map_option (length \<circ> memory) (chatbot st) = Some 2"
    and b: "map_option (length \<circ> rows) (conversation_logs (db st)) = Some 1"
    by (simp_all add: st)
  obtain cb st' where g: "get_chatbot (example_env 8 (Inr ''ok'')) (reset_chatbot st) = Inr (cb, st')"
    by (simp add: st reset_chatbot_eq get_chatbot_def FAQChatbot_init_def
        get_system_prompt_def get_training_data_def example_env_def)
  have "memory cb = [] \<and> db st' = db st"
    using reset_leaves_tables [of st "example_env 8 (Inr ''ok'')"] g by blast
  with a b g show ?thesis
    unfolding st_def by blast
qed

section \<open>Order of the listings\<close>

lemma set_insert_desc: "set (insert_desc key x ys) = insert x (set ys)"
  by (induction ys) auto

lemma set_order_by_desc: "set (order_by_desc key xs) = set xs"
  by (induction xs) (auto simp: set_insert_desc)

lemma sorted_insert_desc:
  "sorted_wrt (\<lambda>a b. key b \<le> key a) ys \<Longrightarrow>
   sorted_wrt (\<lambda>a b. key b \<le> key a) (insert_desc key x ys)"
  by (induction ys) (auto simp: set_insert_desc)

lemma sorted_order_by_desc: "sorted_wrt (\<lambda>a b. key b \<le> key a) (order_by_desc key xs)"
  by (induction xs) (auto simp: sorted_insert_desc)

lemma log_response_map:
  "map (\<lambda>log. \<lparr>log_id = log_id log, log_question = log_question log,
                 log_answer = log_answer log, log_timestamp = log_timestamp log,
                 log_session_id = log_session_id log\<rparr>) logs = logs"
  by (induction logs) simp_all

lemma get_logs_Inr:
  "fst (get_logs st) = Inr logs \<Longrightarrow>
   \<exists>t. conversation_logs (db st) = Some t \<and> logs = order_by_desc log_timestamp (rows t)"
  by (auto simp: get_logs_def get_all_logs_def except_Exception_def log_response_map
      split: option.splits)

lemma get_training_Inr:
  "fst (get_training st) = Inr training \<Longrightarrow>
   \<exists>t. training_data (db st) = Some t \<and> training = order_by_desc tr_created_at (rows t)"
  by (auto simp: get_training_def get_training_data_def except_Exception_def split: option.splits)

text \<open>
  C5, as amended. The list \<open>/logs\<close> returns is ordered newest first by \<open>timestamp\<close>, and
  the list \<open>/training\<close> returns is ordered newest first by \<open>created_at\<close>, in the weak sense:
  along the list the time stamps never increase. Rows that share a time stamp (its
  resolution is one second) follow each other in either order as far as this statement goes.
\<close>

theorem listings_newest_first:
  "(\<forall>logs. fst (get_logs st) = Inr logs \<longrightarrow>
      sorted_wrt (\<lambda>a b. log_timestamp b \<le> log_timestamp a) logs) \<and>
   (\<forall>training. fst (get_training st) = Inr training \<longrightarrow>
      sorted_wrt (\<lambda>a b. tr_created_at b \<le> tr_created_at a) training)"
proof (intro conjI allI impI)
  fix logs
  assume "fst (get_logs st) = Inr logs"
  then show "sorted_wrt (\<lambda>a b. log_timestamp b \<le> log_timestamp a) logs"
    using get_logs_Inr sorted_order_by_desc by blast
next
  fix training
  assume "fst (get_training st) = Inr training"
  then show "sorted_wrt (\<lambda>a b. tr_created_at b \<le> tr_created_at a) training"
    using get_training_Inr sorted_order_by_desc by blast
qed

theorem listings_newest_first_witness:
  "\<exists>logs training.
     fst (get_logs (run [(example_env 7 (Inr ''9-5 Mon-Fri''), Ask hours_question),
                         (example_env 7 (Inr ''9-5 Mon-Fri''), Ask hours_question),
                         (example_env 8 (Inr ''ok''), Train hours_training),
                         (example_env 9 (Inr ''ok''), Train delivery_training)]
                     fresh_state)) = Inr logs \<and>
     map log_timestamp logs = [7, 7] \<and>
     sorted_wrt (\<lambda>a b. log_timestamp b \<le> log_timestamp a) logs \<and>
     fst (get_training (run [(example_env 7 (Inr ''9-5 Mon-Fri''), Ask hours_question),
                         (example_env 7 (Inr ''9-5 Mon-Fri''), Ask hours_question),
                         (example_env 8 (Inr ''ok''), Train hours_training),
                         (example_env 9 (Inr ''ok''), Train delivery_training)]
                     fresh_state)) = Inr training \<and>
     map tr_created_at training = [9, 8] \<and>
     sorted_wrt (\<lambda>a b. tr_created_at b \<le> tr_created_at a) training"
proof -
  let ?st = "run [(example_env 7 (Inr ''9-5 Mon-Fri''), Ask hours_question),
                  (example_env 7 (Inr ''9-5 Mon-Fri''), Ask hours_question),
                  (example_env 8 (Inr ''ok''), Train hours_training),
                  (example_env 9 (Inr ''ok''), Train delivery_training)] fresh_state"
  have l: "map_sum id (map log_timestamp) (fst (get_logs ?st)) = Inr [7, 7]"
    by code_simp
  have t: "map_sum id (map tr_created_at) (fst (get_training ?st)) = Inr [9, 8]"
    by code_simp
  obtain logs where logs: "fst (get_logs ?st) = Inr logs" "map log_timestamp logs = [7, 7]"
    using l by (cases "fst (get_logs ?st)") auto
  obtain training where training: "fst (get_training ?st) = Inr training"
    "map tr_created_at training = [9, 8]"
    using t by (cases "fst (get_training ?st)") auto
  have s1: "sorted_wrt (\<lambda>a b. log_timestamp b \<le> log_timestamp a) logs"
    using listings_newest_first [of ?st, THEN conjunct1, rule_format, OF logs(1)] .
  have s2: "sorted_wrt (\<lambda>a b. tr_created_at b \<le> tr_created_at a) training"
    using listings_newest_first [of ?st, THEN conjunct2, rule_format, OF training(1)] .
  show ?thesis
    by (rule exI [of _ logs], rule exI [of _ training]) (intro conjI logs training s1 s2)
qed

text \<open>
  C5, as stated, fails: two \<open>/ask\<close> calls within the same second leave two log rows with
  the same time stamp, so the list \<open>/logs\<close> returns is not strictly decreasing in
  \<open>timestamp\<close>; the two rows come out in rowid order, the older one first.
\<close>

theorem listings_not_strict:
  "\<exists>logs.
     fst (get_logs (run [(example_env 7 (Inr ''9-5 Mon-Fri''), Ask hours_question),
                         (example_env 7 (Inr ''9-5 Mon-Fri''), Ask hours_question)]
                     fresh_state)) = Inr logs \<and>
     map log_id logs = [1, 2] \<and>
     map log_timestamp logs = [7, 7] \<and>
     \<not> sorted_wrt (\<lambda>a b. log_timestamp b < log_timestamp a) logs"
  by (simp add: ask_question_def ask_question_try_def except_Exception_def
        example_env_def fresh_state_def hours_question_def strip_def isspace_def
        get_chatbot_def FAQChatbot_init_def get_system_prompt_def get_training_data_def
        ask_def log_conversation_def next_rowid_def get_logs_def get_all_logs_def)

section \<open>Training examples in the system prompt\<close>

lemma length_filter_insert_desc:
  "length (filter P (insert_desc key x ys)) = length (filter P (x # ys))"
  by (induction ys) auto

lemma length_filter_order_by_desc:
  "length (filter P (order_by_desc key xs)) = length (filter P xs)"
  by (induction xs) (auto simp: length_filter_insert_desc)

lemma in_take_sorted_desc:
  fixes key :: "'r \<Rightarrow> nat"
  shows "sorted_wrt (\<lambda>a b. key b \<le> key a) ys \<Longrightarrow> r \<in> set ys \<Longrightarrow>
   length (filter (\<lambda>x. key r \<le> key x) ys) \<le> n \<Longrightarrow> r \<in> set (take n ys)"
proof (induction ys arbitrary: n)
  case Nil
  then show ?case by simp
next
  case (Cons y ys)
  show ?case
  proof (cases "r = y")
    case True
    with Cons.prems(3) have "0 < n" by simp
    with True show ?thesis by (cases n) simp_all
  next
    case False
    with Cons.prems have r: "r \<in> set ys" and ky: "key r \<le> key y"
      by auto
    with Cons.prems(3) obtain m where n: "n = Suc m"
      and m: "length (filter (\<lambda>x. key r \<le> key x) ys) \<le> m"
      by (cases n) auto
    from Cons.prems(1) have "sorted_wrt (\<lambda>a b. key b \<le> key a) ys"
      by simp
    from Cons.IH [OF this r m] show ?thesis
      by (simp add: n)
  qed
qed

lemma fold_append_concat:
  "fold (\<lambda>data acc. acc @ f data) xs init = init @ concat (map f xs)"
  by (induction xs arbitrary: init) simp_all

lemma sublist_concat_map:
  assumes "x \<in> set xs"
  shows "sublist (f x) (pre @ concat (map f xs))"
proof -
  obtain ys zs where "xs = ys @ x # zs"
    using assms by (auto simp: in_set_conv_decomp)
  then have "pre @ concat (map f xs) =
      (pre @ concat (map f ys)) @ f x @ concat (map f zs)"
    by simp
  then show ?thesis
    unfolding sublist_def by blast
qed

lemma get_system_prompt_pair:
  assumes "training_data d = Some t"
    and "row \<in> set (take 10 (order_by_desc tr_created_at (rows t)))"
  shows "\<exists>p. get_system_prompt d = Inr p \<and>
             sublist (qa_pair (tr_question row) (tr_answer row)) p"
proof -
  let ?l = "order_by_desc tr_created_at (rows t)"
  let ?f = "\<lambda>data. qa_pair (tr_question data) (tr_answer data)"
  from assms(2) have ne: "?l \<noteq> []"
    by auto
  have "get_system_prompt d =
      Inr ((base_prompt @
            ''\<newline>\<newline>Here are some example Q&A pairs for reference:\<newline>'') @
           concat (map ?f (take 10 ?l)))"
    using assms(1) ne
    by (simp add: get_system_prompt_def get_training_data_def fold_append_concat)
  moreover have "sublist (?f row)
      ((base_prompt @
            ''\<newline>\<newline>Here are some example Q&A pairs for reference:\<newline>'') @
           concat (map ?f (take 10 ?l)))"
    using assms(2) by (rule sublist_concat_map)
  ultimately show ?thesis
    by simp
qed

lemma FAQChatbot_init_prompt:
  "FAQChatbot_init env d = Inr cb \<Longrightarrow> get_system_prompt d = Inr (prompt cb)"
  by (auto simp: FAQChatbot_init_def split: option.splits sum.splits if_splits)

lemma ask_question_training:
  "training_data (db (snd (ask_question env st request))) = training_data (db st)"
  by (auto simp: ask_question_def ask_question_try_def except_Exception_def get_chatbot_def
      log_conversation_def Let_def split: sum.splits prod.splits option.splits)

lemma get_status_db: "db (snd (get_status env st)) = db st"
  by (auto simp: get_status_def except_Exception_def get_chatbot_def
      split: sum.splits prod.splits option.splits)

lemma get_logs_state: "snd (get_logs st) = st"
  by (auto simp: get_logs_def except_Exception_def split: sum.splits)

lemma get_training_state: "snd (get_training st) = st"
  by (auto simp: get_training_def except_Exception_def split: sum.splits)

lemma startup_event_training:
  "training_data (db st) = Some t \<Longrightarrow> training_data (db (snd (startup_event st))) = Some t"
  by (auto simp: startup_event_def init_database_def create_table_def
      split: sum.splits option.splits)

lemma add_training_rows:
  assumes "training_data (db st) = Some t"
  shows "\<exists>t'. training_data (db (snd (add_training env st request))) = Some t' \<and>
              prefix (rows t) (rows t')"
  using assms
  by (auto simp: add_training_def add_training_try_def except_Exception_def
      add_training_data_def reset_chatbot_eq Let_def)

lemma handle_training_rows:
  assumes "training_data (db st) = Some t"
  shows "\<exists>t'. training_data (db (handle env r st)) = Some t' \<and> prefix (rows t) (rows t')"
proof (cases r)
  case Startup
  then show ?thesis using startup_event_training [OF assms] by simp
next
  case Health
  then show ?thesis using assms by (simp add: health_check_def)
next
  case (Ask request)
  then show ?thesis using assms by (simp add: ask_question_training)
next
  case Logs
  then show ?thesis using assms by (simp add: get_logs_state)
next
  case (Train request)
  then show ?thesis using add_training_rows [OF assms] by simp
next
  case Training
  then show ?thesis using assms by (simp add: get_training_state)
next
  case Reset
  then show ?thesis using assms
    by (simp add: reset_conversation_def except_Exception_def reset_chatbot_eq)
next
  case Status
  then show ?thesis using assms by (simp add: get_status_db)
qed

lemma run_training_rows:
  "training_data (db st) = Some t \<Longrightarrow>
   \<exists>t'. training_data (db (run later st)) = Some t' \<and> prefix (rows t) (rows t')"
proof (induction later arbitrary: st t)
  case Nil
  then show ?case by simp
next
  case (Cons a later)
  obtain env r where a: "a = (env, r)"
    by (cases a)
  obtain t1 where t1: "training_data (db (handle env r st)) = Some t1"
    and p1: "prefix (rows t) (rows t1)"
    using handle_training_rows [OF Cons.prems] by blast
  obtain t' where "training_data (db (run later (handle env r st))) = Some t'"
    and "prefix (rows t1) (rows t')"
    using Cons.IH [OF t1] by blast
  with p1 show ?case
    unfolding a by (auto intro: prefix_order.trans)
qed

lemma add_training_success:
  assumes "add_training env st request = (Inr resp, st1)"
  shows "\<exists>t t1. training_data (db st) = Some t \<and> training_data (db st1) = Some t1 \<and>
     rows t1 = rows t @
       [\<lparr>tr_id = tresp_id resp, tr_question = train_question request,
         tr_answer = train_answer request, tr_created_at = clock env\<rparr>]"
  using assms
  by (auto simp: add_training_def add_training_try_def except_Exception_def
      add_training_data_def reset_chatbot_eq Let_def split: if_splits option.splits)


text \<open>
  C4, as amended. A training submission that is accepted stores a row with the id of the
  response and the submitted question and answer. After any further requests the
  \<open>/training\<close> listing returns that row, and whenever at most ten listed examples (the row
  itself counted) have a \<open>created_at\<close> equal to or later than its own, the system prompt
  assembled in that state, which is the prompt of any chatbot constructed in that state,
  contains the pair as the literal text \<open>Q: question\<close>, newline, \<open>A: answer\<close>, two
  newlines.
\<close>

theorem training_pair_in_prompt:
  assumes "add_training env st request = (Inr resp, st1)"
  shows "\<exists>row.
     tr_id row = tresp_id resp \<and>
     tr_question row = train_question request \<and>
     tr_answer row = train_answer request \<and>
     (\<forall>later. \<exists>training.
        fst (get_training (run later st1)) = Inr training \<and>
        row \<in> set training \<and>
        (length (filter (\<lambda>r. tr_created_at row \<le> tr_created_at r) training) \<le> 10 \<longrightarrow>
           (\<exists>p. get_system_prompt (db (run later st1)) = Inr p \<and>
                sublist (qa_pair (train_question request) (train_answer request)) p \<and>
                (\<forall>env' cb. FAQChatbot_init env' (db (run later st1)) = Inr cb \<longrightarrow>
                   prompt cb = p))))"
proof -
  let ?row = "\<lparr>tr_id = tresp_id resp, tr_question = train_question request,
               tr_answer = train_answer request, tr_created_at = clock env\<rparr>"
  obtain t t1 where t0: "training_data (db st) = Some t"
    and t1: "training_data (db st1) = Some t1"
    and rows1: "rows t1 = rows t @ [?row]"
    using add_training_success [OF assms] by blast
  have later: "\<exists>training.
        fst (get_training (run later st1)) = Inr training \<and>
        ?row \<in> set training \<and>
        (length (filter (\<lambda>r. tr_created_at ?row \<le> tr_created_at r) training) \<le> 10 \<longrightarrow>
           (\<exists>p. get_system_prompt (db (run later st1)) = Inr p \<and>
                sublist (qa_pair (train_question request) (train_answer request)) p \<and>
                (\<forall>env' cb. FAQChatbot_init env' (db (run later st1)) = Inr cb \<longrightarrow>
                   prompt cb = p)))" for later
  proof -
    obtain t2 where t2: "training_data (db (run later st1)) = Some t2"
      and pre: "prefix (rows t1) (rows t2)"
      using run_training_rows [OF t1] by blast
    let ?training = "order_by_desc tr_created_at (rows t2)"
    have listing: "fst (get_training (run later st1)) = Inr ?training"
      using t2 by (simp add: get_training_def get_training_data_def except_Exception_def)
    have "?row \<in> set (rows t1)"
      by (simp add: rows1)
    with pre have "?row \<in> set (rows t2)"
      using set_mono_prefix by blast
    then have mem: "?row \<in> set ?training"
      by (simp add: set_order_by_desc)
    have prompt: "\<exists>p. get_system_prompt (db (run later st1)) = Inr p \<and>
                sublist (qa_pair (train_question request) (train_answer request)) p \<and>
                (\<forall>env' cb. FAQChatbot_init env' (db (run later st1)) = Inr cb \<longrightarrow>
                   prompt cb = p)"
      if few: "length (filter (\<lambda>r. tr_created_at ?row \<le> tr_created_at r) ?training) \<le> 10"
    proof -
      have "?row \<in> set (take 10 ?training)"
        using sorted_order_by_desc mem few by (rule in_take_sorted_desc)
      then obtain p where p: "get_system_prompt (db (run later st1)) = Inr p"
        and sub: "sublist (qa_pair (tr_question ?row) (tr_answer ?row)) p"
        using get_system_prompt_pair [OF t2] by blast
      have "prompt cb = p" if "FAQChatbot_init env' (db (run later st1)) = Inr cb" for env' cb
        using FAQChatbot_init_prompt [OF that] p by simp
      with p sub show ?thesis
        by auto
    qed
    show ?thesis
      using listing mem prompt by blast
  qed
  have "tr_id ?row = tresp_id resp \<and>
     tr_question ?row = train_question request \<and>
     tr_answer ?row = train_answer request"
    by simp
  with later show ?thesis
    by blast
qed

lemma add_training_fresh:
  "add_training (example_env 5 (Inr ''ok'')) fresh_state hours_training =
     (Inr \<lparr>tresp_id = 1, tresp_message = ''Training data added successfully'',
           tresp_question = ''What are your hours?'', tresp_answer = ''9-5 Mon-Fri''\<rparr>,
      \<lparr>chatbot = None,
       db = \<lparr>conversation_logs =
               Some \<lparr>columns = conversation_logs_columns, rows = [], seq = 0\<rparr>,
             training_data =
               Some \<lparr>columns = training_data_columns,
                     rows = [\<lparr>tr_id = 1, tr_question = ''What are your hours?'',
                              tr_answer = ''9-5 Mon-Fri'', tr_created_at = 5\<rparr>],
                     seq = 1\<rparr>\<rparr>\<rparr>)"
  by (simp add: add_training_def add_training_try_def except_Exception_def
      add_training_data_def next_rowid_def reset_chatbot_eq example_env_def fresh_state_def
      hours_training_def strip_def isspace_def)

theorem training_pair_in_prompt_witness:
  "\<exists>resp st1 p.
     add_training (example_env 5 (Inr ''ok'')) fresh_state hours_training = (Inr resp, st1) \<and>
     get_system_prompt (db (run [(example_env 6 (Inr ''9-5''), Ask hours_question)] st1)) = Inr p \<and>
     sublist (qa_pair ''What are your hours?'' ''9-5 Mon-Fri'') p"
proof -
  let ?later = "[(example_env 6 (Inr ''9-5''), Ask hours_question)]"
  obtain resp st1 where a:
    "add_training (example_env 5 (Inr ''ok'')) fresh_state hours_training = (Inr resp, st1)"
    and st1: "st1 = \<lparr>chatbot = None,
       db = \<lparr>conversation_logs =
               Some \<lparr>columns = conversation_logs_columns, rows = [], seq = 0\<rparr>,
             training_data =
               Some \<lparr>columns = training_data_columns,
                     rows = [\<lparr>tr_id = 1, tr_question = ''What are your hours?'',
                              tr_answer = ''9-5 Mon-Fri'', tr_created_at = 5\<rparr>],
                     seq = 1\<rparr>\<rparr>\<rparr>"
    using add_training_fresh by blast
  have tr: "training_data (db (run ?later st1)) = training_data (db st1)"
    by (simp add: ask_question_training)
  have listing: "fst (get_training (run ?later st1)) =
      Inr [\<lparr>tr_id = 1, tr_question = ''What are your hours?'',
            tr_answer = ''9-5 Mon-Fri'', tr_created_at = 5\<rparr>]"
    unfolding get_training_def get_training_data_def tr
    by (simp add: st1 except_Exception_def)
  obtain row where all: "\<forall>later. \<exists>training.
        fst (get_training (run later st1)) = Inr training \<and>
        row \<in> set training \<and>
        (length (filter (\<lambda>r. tr_created_at row \<le> tr_created_at r) training) \<le> 10 \<longrightarrow>
           (\<exists>p. get_system_prompt (db (run later st1)) = Inr p \<and>
                sublist (qa_pair (train_question hours_training)
                  (train_answer hours_training)) p \<and>
                (\<forall>env' cb. FAQChatbot_init env' (db (run later st1)) = Inr cb \<longrightarrow>
                   prompt cb = p)))"
    using training_pair_in_prompt [OF a] by auto
  obtain training where t: "fst (get_training (run ?later st1)) = Inr training"
    and imp: "length (filter (\<lambda>r. tr_created_at row \<le> tr_created_at r) training) \<le> 10 \<longrightarrow>
           (\<exists>p. get_system_prompt (db (run ?later st1)) = Inr p \<and>
                sublist (qa_pair (train_question hours_training)
                  (train_answer hours_training)) p \<and>
                (\<forall>env' cb. FAQChatbot_init env' (db (run ?later st1)) = Inr cb \<longrightarrow>
                   prompt cb = p))"
    using all by blast
  have "length training = 1"
    using t listing by simp
  then have "length (filter (\<lambda>r. tr_created_at row \<le> tr_created_at r) training) \<le> 10"
    using length_filter_le [of "\<lambda>r. tr_created_at row \<le> tr_created_at r" training]
    by simp
  with imp obtain p where "get_system_prompt (db (run ?later st1)) = Inr p"
    and "sublist (qa_pair (train_question hours_training) (train_answer hours_training)) p"
    by blast
  then have "get_system_prompt (db (run ?later st1)) = Inr p \<and>
      sublist (qa_pair ''What are your hours?'' ''9-5 Mon-Fri'') p"
    by (simp add: hours_training_def)
  with a show ?thesis
    by blast
qed

text \<open>
  C4, as stated, fails when more than ten examples share the latest \<open>created_at\<close>: of
  eleven pairs submitted within one second the eleventh is accepted with id 11, is listed by
  \<open>/training\<close>, and no example is newer than it, yet the system prompt assembled afterwards
  does not contain it. \<open>ORDER BY created_at DESC\<close> leaves rows of the same second in rowid
  order, and \<open>training_data[:10]\<close> keeps the first ten.
\<close>

theorem newest_pair_left_out:
  "map_sum id tresp_id
     (fst (add_training (example_env 5 (Inr ''ok''))
        (run (replicate 10 (example_env 5 (Inr ''ok''), Train hours_training)) fresh_state)
        delivery_training)) = Inr 11 \<and>
   map_sum id (map tr_id)
     (fst (get_training
        (run (replicate 10 (example_env 5 (Inr ''ok''), Train hours_training) @
              [(example_env 5 (Inr ''ok''), Train delivery_training)]) fresh_state))) =
     Inr [1, 2, 3, 4, 5, 6, 7, 8, 9, 10, 11] \<and>
   map_sum id (map tr_created_at)
     (fst (get_training
        (run (replicate 10 (example_env 5 (Inr ''ok''), Train hours_training) @
              [(example_env 5 (Inr ''ok''), Train delivery_training)]) fresh_state))) =
     Inr [5, 5, 5, 5, 5, 5, 5, 5, 5, 5, 5] \<and>
   map_sum id (sublist (qa_pair ''Do you deliver?'' ''Yes, daily''))
     (get_system_prompt (db
        (run (replicate 10 (example_env 5 (Inr ''ok''), Train hours_training) @
              [(example_env 5 (Inr ''ok''), Train delivery_training)]) fresh_state))) =
     Inr False"
  by code_simp

end
